theory Spec2Isabelle
  imports Complex_Main "HOL-Library.AList"
begin

section \<open>JavaScript values\<close>

text \<open>
  The module \<^verbatim>\<open>src/github.ts\<close> reads a webhook payload whose shape is not checked
  (\<^verbatim>\<open>[key: string]: any\<close>), so the payload is modelled as an untyped JavaScript value.
  A string is a list of characters, one per UTF-16 code unit. A number is a rational,
  \<^verbatim>\<open>NaN\<close> or an infinity (negative zero is not told from zero): the module computes
  with no number, it only hands them on.
  An object is the list of its own enumerable properties in the order they were
  written, each name once; a property read takes the entry of the name. JavaScript
  lists the names that are array indices before the others: the list does not, and no
  statement below depends on where an index name stands. \<open>JFun\<close> is a function value,
  known by its name.
\<close>

datatype number = Finite rat | NaN | PosInfinity | NegInfinity

datatype jsval =
    JUndefined
  | JNull
  | JBool bool
  | JNum number
  | JStr string
  | JArr "jsval list"
  | JObj "(string \<times> jsval) list"
  | JFun string

type_synonym props = "(string \<times> jsval) list"

text \<open>
  A throw, and the rejection of a promise, is a value: \<open>TypeError\<close> is what the
  runtime raises on a property read of \<^verbatim>\<open>undefined\<close> or \<^verbatim>\<open>null\<close> and on a call
  of a value that is no function; \<open>Failure\<close> is an error of the libraries outside the
  module (the API client), with its message.
\<close>

datatype error = TypeError | Failure string

definition nullish :: "jsval \<Rightarrow> bool" where
  "nullish v = (v = JUndefined \<or> v = JNull)"

text \<open>
  \<^verbatim>\<open>v.k\<close> for the property names the module writes out (\<^verbatim>\<open>pull_request\<close>, \<^verbatim>\<open>head\<close>,
  \<^verbatim>\<open>sha\<close>, \<^verbatim>\<open>check_run\<close>, \<^verbatim>\<open>pull_requests\<close>, \<^verbatim>\<open>number\<close>, \<^verbatim>\<open>head_sha\<close>, \<^verbatim>\<open>data\<close>):
  none of them is a member of a built-in prototype, so on a string, number, boolean,
  array or function the read gives \<^verbatim>\<open>undefined\<close>.
\<close>

definition get :: "jsval \<Rightarrow> string \<Rightarrow> error + jsval" where
  "get v k =
     (case v of
        JUndefined \<Rightarrow> Inl TypeError
      | JNull \<Rightarrow> Inl TypeError
      | JObj ps \<Rightarrow> Inr (case map_of ps k of Some w \<Rightarrow> w | None \<Rightarrow> JUndefined)
      | _ \<Rightarrow> Inr JUndefined)"

text \<open>\<^verbatim>\<open>v[0]\<close> on a value that is neither \<^verbatim>\<open>undefined\<close> nor \<^verbatim>\<open>null\<close>.\<close>

definition index0 :: "jsval \<Rightarrow> jsval" where
  "index0 v =
     (case v of
        JArr xs \<Rightarrow> (case xs of [] \<Rightarrow> JUndefined | x # _ \<Rightarrow> x)
      | JStr s \<Rightarrow> (case s of [] \<Rightarrow> JUndefined | c # _ \<Rightarrow> JStr [c])
      | JObj ps \<Rightarrow> (case map_of ps ''0'' of Some w \<Rightarrow> w | None \<Rightarrow> JUndefined)
      | _ \<Rightarrow> JUndefined)"

text \<open>The decimal name of an index, as the keys of a string or an array have it.\<close>

function decimal :: "nat \<Rightarrow> string" where
  "decimal n =
     (if n < 10 then [''0123456789'' ! n]
      else decimal (n div 10) @ [''0123456789'' ! (n mod 10)])"
  by pat_completeness auto
termination
  by (relation "measure id") auto

text \<open>
  The own enumerable properties that an object spread \<^verbatim>\<open>{...v}\<close> copies: the entries
  of an object, the indexed code units of a string, the indexed elements of an array,
  nothing for the other values.
\<close>

definition own_enumerable :: "jsval \<Rightarrow> props" where
  "own_enumerable v =
     (case v of
        JObj ps \<Rightarrow> ps
      | JStr s \<Rightarrow> map (\<lambda>i. (decimal i, JStr [s ! i])) [0..<length s]
      | JArr xs \<Rightarrow> map (\<lambda>i. (decimal i, xs ! i)) [0..<length xs]
      | _ \<Rightarrow> [])"

text \<open>
  \<^verbatim>\<open>{...target, ...v}\<close>: each property of \<open>v\<close> is written onto the target in turn,
  replacing the value of a name already there.
\<close>

definition spread :: "props \<Rightarrow> jsval \<Rightarrow> props" where
  "spread target v = foldl (\<lambda>t (k, w). AList.update k w t) target (own_enumerable v)"

section \<open>The world outside the module\<close>

text \<open>
  \<^verbatim>\<open>github.context\<close> of the Actions toolkit. \<open>eventName\<close>, \<open>sha\<close> and \<open>ref\<close> are the
  strings the runner sets; \<open>issue_number\<close> is what the getter \<^verbatim>\<open>context.issue.number\<close>
  yields, \<open>repo_owner\<close> and \<open>repo_name\<close> what \<^verbatim>\<open>context.repo\<close> yields; \<open>other_props\<close>
  are the remaining own properties of the context object (workflow, actor, run
  numbers, URLs), which the module never reads.
\<close>

record Context =
  eventName :: string
  sha :: string
  ref :: string
  payload :: jsval
  issue_number :: jsval
  repo_owner :: string
  repo_name :: string
  other_props :: props

text \<open>The argument of \<^verbatim>\<open>pulls.get\<close>, with the token of the client it is called on.\<close>

record PullsGet =
  token :: string
  owner :: string
  repo :: string
  pull_number :: number

text \<open>
  Everything the module reaches through its imports: the context, \<^verbatim>\<open>core.getInput\<close>,
  \<^verbatim>\<open>github.getOctokit\<close> (which may throw, and otherwise gives a client whose
  \<^verbatim>\<open>rest.pulls.get\<close> resolves to a response or rejects) and the built-in
  \<^verbatim>\<open>parseInt\<close>.
\<close>

record Env =
  github_context :: Context
  getInput :: "string \<Rightarrow> string"
  getOctokit :: "string \<Rightarrow> error + (PullsGet \<Rightarrow> error + jsval)"
  parseInt :: "string \<Rightarrow> number"

section \<open>The module\<close>

text \<open>\<^verbatim>\<open>getRepositoryInfo\<close>: \<^verbatim>\<open>{ owner, repo }\<close> from \<^verbatim>\<open>github.context.repo\<close>.\<close>

definition getRepositoryInfo :: "Env \<Rightarrow> jsval" where
  "getRepositoryInfo env =
     JObj [(''owner'', JStr (repo_owner (github_context env))),
           (''repo'', JStr (repo_name (github_context env)))]"

text \<open>
  \<^verbatim>\<open>getPullRequestContext\<close>: \<^verbatim>\<open>context.payload.pull_request?.head.sha\<close> stops at a
  \<^verbatim>\<open>pull_request\<close> that is \<^verbatim>\<open>undefined\<close> or \<^verbatim>\<open>null\<close>; past it, \<^verbatim>\<open>.head.sha\<close> is read
  without a guard.
\<close>

definition getPullRequestContext :: "Context \<Rightarrow> error + jsval" where
  "getPullRequestContext c =
     (let prNumber = issue_number c in
      case get (payload c) ''pull_request'' of
        Inl e \<Rightarrow> Inl e
      | Inr pr \<Rightarrow>
          (case (if nullish pr then Inr JUndefined
                 else case get pr ''head'' of
                        Inl e \<Rightarrow> Inl e
                      | Inr h \<Rightarrow> get h ''sha'') of
             Inl e \<Rightarrow> Inl e
           | Inr s \<Rightarrow> Inr (JObj [(''prNumber'', prNumber), (''sha'', s)])))"

text \<open>
  \<^verbatim>\<open>getCheckRunContext\<close>: \<^verbatim>\<open>actionEvent.pull_requests?.[0]?.number\<close> and
  \<^verbatim>\<open>actionEvent.head_sha\<close>, both read off \<^verbatim>\<open>context.payload.check_run\<close> without a guard.
\<close>

definition getCheckRunContext :: "Context \<Rightarrow> error + jsval" where
  "getCheckRunContext c =
     (case get (payload c) ''check_run'' of
        Inl e \<Rightarrow> Inl e
      | Inr actionEvent \<Rightarrow>
          (case get actionEvent ''pull_requests'' of
             Inl e \<Rightarrow> Inl e
           | Inr prs \<Rightarrow>
               (case (if nullish prs then Inr JUndefined
                      else if nullish (index0 prs) then Inr JUndefined
                      else get (index0 prs) ''number'') of
                  Inl e \<Rightarrow> Inl e
                | Inr prNumber \<Rightarrow>
                    (case get actionEvent ''head_sha'' of
                       Inl e \<Rightarrow> Inl e
                     | Inr s \<Rightarrow> Inr (JObj [(''prNumber'', prNumber), (''sha'', s)])))))"

text \<open>
  \<^verbatim>\<open>getWorkflowDispatchContext\<close>. The branch name is
  \<^verbatim>\<open>context.ref.substring('refs/heads/'.length)\<close>: the ref without its first eleven
  code units, whatever they are.
\<close>

definition branchName :: "string \<Rightarrow> string" where
  "branchName r = drop (length ''refs/heads/'') r"

definition allowedBranches :: "string list" where
  "allowedBranches = [''main'', ''develop'']"

definition pullsGetRequest :: "Env \<Rightarrow> PullsGet" where
  "pullsGetRequest env =
     \<lparr>token = getInput env ''token'',
      owner = repo_owner (github_context env),
      repo = repo_name (github_context env),
      pull_number = parseInt env (getInput env ''pr-number'')\<rparr>"

text \<open>
  The result is the list of the calls of \<^verbatim>\<open>pulls.get\<close> that were made, and the value
  the promise resolves to or the error it rejects with.
\<close>

definition getWorkflowDispatchContext :: "Env \<Rightarrow> Context \<Rightarrow> PullsGet list \<times> (error + jsval)" where
  "getWorkflowDispatchContext env c =
     (if branchName (ref c) \<in> set allowedBranches then
        (case getOctokit env (getInput env ''token'') of
           Inl e \<Rightarrow> ([], Inl e)
         | Inr pulls_get \<Rightarrow>
             ([pullsGetRequest env],
              case pulls_get (pullsGetRequest env) of
                Inl e \<Rightarrow> Inl e
              | Inr response \<Rightarrow>
                  (case get response ''data'' of
                     Inl e \<Rightarrow> Inl e
                   | Inr d \<Rightarrow>
                       (case get d ''head'' of
                          Inl e \<Rightarrow> Inl e
                        | Inr h \<Rightarrow>
                            (case get h ''sha'' of
                               Inl e \<Rightarrow> Inl e
                             | Inr s \<Rightarrow> Inr (JObj [(''sha'', s)]))))))
      else ([], Inr (JObj [(''sha'', JStr (sha c))])))"

text \<open>
  \<^verbatim>\<open>eventHandlers\<close> is an object literal: its own properties are the two handlers.
\<close>

definition eventHandlers :: "(string \<times> (Context \<Rightarrow> error + jsval)) list" where
  "eventHandlers =
     [(''check_run'', getCheckRunContext),
      (''pull_request'', getPullRequestContext)]"

text \<open>
  An object literal inherits from \<^verbatim>\<open>Object.prototype\<close>, and the property read
  \<^verbatim>\<open>eventHandlers[eventName]\<close> with a computed name finds the inherited members as well.
  The table gives, for each member, what \<^verbatim>\<open>eventHandlers[name](context)\<close> does, with
  \<^verbatim>\<open>this\<close> the table itself and the context as the only argument:
  \<^item> \<^verbatim>\<open>constructor\<close> is \<^verbatim>\<open>Object\<close>, which returns an object argument as it is;
  \<^item> \<^verbatim>\<open>hasOwnProperty\<close> and \<^verbatim>\<open>propertyIsEnumerable\<close> turn the context into the name
    \<^verbatim>\<open>[object Object]\<close>, which the table has not; \<^verbatim>\<open>isPrototypeOf\<close> does not find the
    table among the prototypes of the context;
  \<^item> \<^verbatim>\<open>toString\<close> and \<^verbatim>\<open>toLocaleString\<close> give \<^verbatim>\<open>[object Object]\<close>, \<^verbatim>\<open>valueOf\<close> the
    table;
  \<^item> \<^verbatim>\<open>__lookupGetter__\<close> and \<^verbatim>\<open>__lookupSetter__\<close> find no accessor;
  \<^item> \<^verbatim>\<open>__defineGetter__\<close> and \<^verbatim>\<open>__defineSetter__\<close> throw, their second argument being
    no function; \<^verbatim>\<open>__proto__\<close> is an object, and calling it throws.
\<close>

definition context_object :: "Context \<Rightarrow> jsval" where
  "context_object c =
     JObj ([(''payload'', payload c), (''eventName'', JStr (eventName c)),
            (''sha'', JStr (sha c)), (''ref'', JStr (ref c))] @ other_props c)"

definition eventHandlers_object :: jsval where
  "eventHandlers_object =
     JObj [(''check_run'', JFun ''getCheckRunContext''),
           (''pull_request'', JFun ''getPullRequestContext'')]"

definition Object_prototype :: "(string \<times> (Context \<Rightarrow> error + jsval)) list" where
  "Object_prototype =
     [(''constructor'', \<lambda>c. Inr (context_object c)),
      (''__defineGetter__'', \<lambda>c. Inl TypeError),
      (''__defineSetter__'', \<lambda>c. Inl TypeError),
      (''hasOwnProperty'', \<lambda>c. Inr (JBool False)),
      (''__lookupGetter__'', \<lambda>c. Inr JUndefined),
      (''__lookupSetter__'', \<lambda>c. Inr JUndefined),
      (''isPrototypeOf'', \<lambda>c. Inr (JBool False)),
      (''propertyIsEnumerable'', \<lambda>c. Inr (JBool False)),
      (''toString'', \<lambda>c. Inr (JStr ''[object Object]'')),
      (''valueOf'', \<lambda>c. Inr eventHandlers_object),
      (''__proto__'', \<lambda>c. Inl TypeError),
      (''toLocaleString'', \<lambda>c. Inr (JStr ''[object Object]''))]"

text \<open>
  \<^verbatim>\<open>eventHandlers[eventName](context)\<close>: an own property first, then an inherited
  one; a name that is neither gives \<^verbatim>\<open>undefined\<close>, and the call throws.
\<close>

definition callEventHandler :: "string \<Rightarrow> Context \<Rightarrow> error + jsval" where
  "callEventHandler name c =
     (case map_of eventHandlers name of
        Some handler \<Rightarrow> handler c
      | None \<Rightarrow>
          (case map_of Object_prototype name of
             Some member \<Rightarrow> member c
           | None \<Rightarrow> Inl TypeError))"

text \<open>
  \<^verbatim>\<open>getGitHubContext\<close>. \<open>commitInfo\<close> is the constant of that name: the handler of
  the event, or the manual-dispatch resolution. The result is then
  \<^verbatim>\<open>{ ...getRepositoryInfo(), ...commitInfo }\<close>. A throw inside the \<^verbatim>\<open>async\<close> function
  rejects its promise.
\<close>

definition commitInfo :: "Env \<Rightarrow> PullsGet list \<times> (error + jsval)" where
  "commitInfo env =
     (let c = github_context env in
      if eventName c \<noteq> ''workflow_dispatch'' then ([], callEventHandler (eventName c) c)
      else getWorkflowDispatchContext env c)"

definition getGitHubContext :: "Env \<Rightarrow> PullsGet list \<times> (error + props)" where
  "getGitHubContext env =
     (case commitInfo env of
        (calls, Inl e) \<Rightarrow> (calls, Inl e)
      | (calls, Inr ci) \<Rightarrow> (calls, Inr (spread (spread [] (getRepositoryInfo env)) ci)))"

section \<open>The invariant of the specification, and example inputs\<close>

text \<open>
  The data model of the specification asks of a \<^verbatim>\<open>GitHubContext\<close> that \<^verbatim>\<open>sha\<close> is
  present and a non-empty string, and that \<^verbatim>\<open>prNumber\<close>, when present, is a positive
  integer.
\<close>

definition nonempty_string :: "jsval \<Rightarrow> bool" where
  "nonempty_string v = (case v of JStr s \<Rightarrow> s \<noteq> [] | _ \<Rightarrow> False)"

definition positive_integer :: "jsval \<Rightarrow> bool" where
  "positive_integer v =
     (case v of JNum (Finite q) \<Rightarrow> 0 < q \<and> of_int \<lfloor>q\<rfloor> = q | _ \<Rightarrow> False)"

definition GitHubContext_invariant :: "props \<Rightarrow> bool" where
  "GitHubContext_invariant g =
     ((case map_of g ''sha'' of Some v \<Rightarrow> nonempty_string v | None \<Rightarrow> False) \<and>
      (case map_of g ''prNumber'' of
         Some v \<Rightarrow> v = JUndefined \<or> positive_integer v
       | None \<Rightarrow> True))"

text \<open>
  The values an event hands to the normalizer: the ones \<^verbatim>\<open>sha\<close> and \<^verbatim>\<open>prNumber\<close> are
  copied from. \<open>path\<close> follows property names and gives \<^verbatim>\<open>undefined\<close> where a
  property read stops.
\<close>

fun path :: "jsval \<Rightarrow> string list \<Rightarrow> jsval" where
  "path v [] = v"
| "path v (k # ks) = (case get v k of Inl e \<Rightarrow> JUndefined | Inr w \<Rightarrow> path w ks)"

definition sources_valid :: "Env \<Rightarrow> bool" where
  "sources_valid env =
     (let c = github_context env in
      if eventName c = ''pull_request'' then
        nonempty_string (path (payload c) [''pull_request'', ''head'', ''sha'']) \<and>
        (issue_number c = JUndefined \<or> positive_integer (issue_number c))
      else if eventName c = ''check_run'' then
        nonempty_string (path (payload c) [''check_run'', ''head_sha'']) \<and>
        (let n = path (index0 (path (payload c) [''check_run'', ''pull_requests''])) [''number'']
         in n = JUndefined \<or> positive_integer n)
      else if branchName (ref c) \<in> set allowedBranches then
        (case getOctokit env (getInput env ''token'') of
           Inl e \<Rightarrow> True
         | Inr pulls_get \<Rightarrow>
             (case pulls_get (pullsGetRequest env) of
                Inl e \<Rightarrow> True
              | Inr response \<Rightarrow> nonempty_string (path response [''data'', ''head'', ''sha''])))
      else sha c \<noteq> [])"

text \<open>The prefix stripping that the specification describes for the branch name.\<close>

definition spec_stripPrefix :: "string \<Rightarrow> string \<Rightarrow> string" where
  "spec_stripPrefix p r = (if take (length p) r = p then drop (length p) r else r)"

text \<open>
  Example inputs. \<open>parseInt_model\<close> is the built-in \<^verbatim>\<open>parseInt\<close> with no radix
  argument, on strings of code units below 256 whose digits denote a value below
  \<open>2 ^ 53\<close> (beyond it the built-in rounds to a double): white space at the start is
  skipped, then a sign is read, then \<^verbatim>\<open>0x\<close> or \<^verbatim>\<open>0X\<close> selects radix 16, and the longest
  run of digits of the radix is the value; with no digit the result is \<^verbatim>\<open>NaN\<close>.
  Negative zero is not told from zero.
\<close>

definition white_space :: "char \<Rightarrow> bool" where
  "white_space ch = (of_char ch \<in> {9, 10, 11, 12, 13, 32, 160 :: nat})"

definition digit_value :: "char \<Rightarrow> nat" where
  "digit_value ch =
     (let n = of_char ch :: nat in
      if 48 \<le> n \<and> n \<le> 57 then n - 48
      else if 97 \<le> n \<and> n \<le> 122 then n - 87
      else if 65 \<le> n \<and> n \<le> 90 then n - 55
      else 36)"

definition parseInt_model :: "string \<Rightarrow> number" where
  "parseInt_model s =
     (let s1 = dropWhile white_space s;
          negative = (take 1 s1 = ''-'');
          s2 = (if take 1 s1 = ''-'' \<or> take 1 s1 = ''+'' then drop 1 s1 else s1);
          hex = (take 2 s2 = ''0x'' \<or> take 2 s2 = ''0X'');
          radix = (if hex then 16 else 10);
          s3 = (if hex then drop 2 s2 else s2);
          ds = takeWhile (\<lambda>ch. digit_value ch < radix) s3;
          v = foldl (\<lambda>n ch. radix * n + digit_value ch) 0 ds
      in if ds = [] then NaN
         else Finite (if negative then - of_nat v else of_nat v))"

definition example_context :: "string \<Rightarrow> string \<Rightarrow> jsval \<Rightarrow> jsval \<Rightarrow> Context" where
  "example_context ev r p n =
     \<lparr>eventName = ev, sha = ''ffac537e6cbb'', ref = r, payload = p, issue_number = n,
      repo_owner = ''pixee'', repo_name = ''pixee-actions'', other_props = []\<rparr>"

text \<open>A run with no inputs: without a token \<^verbatim>\<open>getOctokit\<close> throws.\<close>

definition no_inputs :: "Context \<Rightarrow> Env" where
  "no_inputs c =
     \<lparr>github_context = c, getInput = (\<lambda>name. []),
      getOctokit = (\<lambda>t. Inl (Failure ''Parameter token or opts.auth is required'')),
      parseInt = parseInt_model\<rparr>"

text \<open>
  A run with the inputs \<^verbatim>\<open>token\<close> and \<^verbatim>\<open>pr-number: 17\<close>, and an API that answers every
  request with a pull request whose head is at \<^verbatim>\<open>9fceb02d0ae5\<close>.
\<close>

definition with_inputs :: "Context \<Rightarrow> Env" where
  "with_inputs c =
     \<lparr>github_context = c,
      getInput = (\<lambda>name. if name = ''token'' then ''installation-token''
                          else if name = ''pr-number'' then ''17'' else []),
      getOctokit = (\<lambda>t. Inr (\<lambda>rq.
         Inr (JObj [(''data'', JObj [(''head'', JObj [(''sha'', JStr ''9fceb02d0ae5'')])])]))),
      parseInt = parseInt_model\<rparr>"

text \<open>A \<^verbatim>\<open>pull_request\<close> payload for pull request 42, whose head is at \<^verbatim>\<open>abc123\<close>.\<close>

definition pull_request_42 :: jsval where
  "pull_request_42 =
     JObj [(''number'', JNum (Finite 42)),
           (''head'', JObj [(''ref'', JStr ''fix''), (''sha'', JStr ''abc123'')])]"

definition payload_42 :: jsval where
  "payload_42 =
     JObj [(''action'', JStr ''opened''), (''number'', JNum (Finite 42)),
           (''pull_request'', pull_request_42)]"

text \<open>
  Two \<^verbatim>\<open>check_run\<close> payloads for a check run on commit \<^verbatim>\<open>def456\<close>: one with the pull
  requests 7 and 8, one with none.
\<close>

definition check_run_7_8 :: jsval where
  "check_run_7_8 =
     JObj [(''action'', JStr ''completed''),
           (''check_run'',
            JObj [(''head_sha'', JStr ''def456''),
                  (''pull_requests'',
                   JArr [JObj [(''number'', JNum (Finite 7))],
                         JObj [(''number'', JNum (Finite 8))]])])]"

definition check_run_no_pr :: jsval where
  "check_run_no_pr =
     JObj [(''action'', JStr ''completed''),
           (''check_run'', JObj [(''head_sha'', JStr ''def456''), (''pull_requests'', JArr [])])]"

section \<open>Properties\<close>

subsection \<open>Unfolding the model\<close>

lemmas example_defs = example_context_def no_inputs_def with_inputs_def

lemma parseInt_17: "parseInt_model ''17'' = Finite 17"
  by (simp add: parseInt_model_def white_space_def digit_value_def)

lemma callEventHandler_check_run: "callEventHandler ''check_run'' c = getCheckRunContext c"
  by (simp add: callEventHandler_def eventHandlers_def)

lemma callEventHandler_pull_request:
  "callEventHandler ''pull_request'' c = getPullRequestContext c"
  by (simp add: callEventHandler_def eventHandlers_def)

lemma commitInfo_pull_request:
  "eventName (github_context env) = ''pull_request'' \<Longrightarrow>
   commitInfo env = ([], getPullRequestContext (github_context env))"
  by (simp add: commitInfo_def callEventHandler_pull_request)

lemma commitInfo_check_run:
  "eventName (github_context env) = ''check_run'' \<Longrightarrow>
   commitInfo env = ([], getCheckRunContext (github_context env))"
  by (simp add: commitInfo_def callEventHandler_check_run)

lemma commitInfo_workflow_dispatch:
  "eventName (github_context env) = ''workflow_dispatch'' \<Longrightarrow>
   commitInfo env = getWorkflowDispatchContext env (github_context env)"
  by (simp add: commitInfo_def)

text \<open>The merge with the repository information, for the two shapes a handler returns.\<close>

lemma spread_repo_pr:
  "spread (spread [] (getRepositoryInfo env)) (JObj [(''prNumber'', n), (''sha'', s)]) =
     [(''owner'', JStr (repo_owner (github_context env))),
      (''repo'', JStr (repo_name (github_context env))), (''prNumber'', n), (''sha'', s)]"
  by (simp add: spread_def own_enumerable_def getRepositoryInfo_def)

lemma spread_repo_sha:
  "spread (spread [] (getRepositoryInfo env)) (JObj [(''sha'', s)]) =
     [(''owner'', JStr (repo_owner (github_context env))),
      (''repo'', JStr (repo_name (github_context env))), (''sha'', s)]"
  by (simp add: spread_def own_enumerable_def getRepositoryInfo_def)

text \<open>What a handler returns, when it returns.\<close>

lemma getPullRequestContext_returns:
  assumes "getPullRequestContext c = Inr ci"
  shows "ci = JObj [(''prNumber'', issue_number c),
                    (''sha'', path (payload c) [''pull_request'', ''head'', ''sha''])]"
  using assms
  by (auto simp: getPullRequestContext_def nullish_def get_def split: sum.splits if_splits jsval.splits)

lemma getCheckRunContext_returns:
  assumes "getCheckRunContext c = Inr ci"
  shows "ci = JObj [(''prNumber'',
                     path (index0 (path (payload c) [''check_run'', ''pull_requests''])) [''number'']),
                    (''sha'', path (payload c) [''check_run'', ''head_sha''])]"
proof -
  from assms obtain ev prs where ev: "get (payload c) ''check_run'' = Inr ev"
    and prs: "get ev ''pull_requests'' = Inr prs"
    by (auto simp: getCheckRunContext_def split: sum.splits)
  from assms ev prs obtain n s where n: "(if nullish prs then Inr JUndefined
                      else if nullish (index0 prs) then Inr JUndefined
                      else get (index0 prs) ''number'') = Inr n"
    and s: "get ev ''head_sha'' = Inr s" and ci: "ci = JObj [(''prNumber'', n), (''sha'', s)]"
    by (auto simp: getCheckRunContext_def split: sum.splits)
  have "path (index0 prs) [''number''] = n"
    using n by (auto simp: nullish_def index0_def get_def split: if_splits)
  with ev prs s ci show ?thesis by simp
qed

lemma getWorkflowDispatchContext_returns:
  assumes "getWorkflowDispatchContext env c = (calls, Inr ci)"
  shows "\<exists>s. ci = JObj [(''sha'', s)]"
  using assms
  by (auto simp: getWorkflowDispatchContext_def split: if_splits sum.splits)

subsection \<open>Event kinds without a handler\<close>

text \<open>
  A name that is in neither table has nothing to call, and three of the inherited
  members throw as well.
\<close>

lemma callEventHandler_throws:
  assumes "name \<notin> {''pull_request'', ''check_run''}"
      and "name \<notin> {''constructor'', ''hasOwnProperty'', ''isPrototypeOf'',
                      ''propertyIsEnumerable'', ''toString'', ''toLocaleString'', ''valueOf'',
                      ''__lookupGetter__'', ''__lookupSetter__''}"
  shows "callEventHandler name c = Inl TypeError"
proof -
  from assms(1) have own: "map_of eventHandlers name = None"
    by (simp add: eventHandlers_def)
  show ?thesis
  proof (cases "map_of Object_prototype name")
    case None
    with own show ?thesis
      by (simp add: callEventHandler_def)
  next
    case (Some member)
    with assms(2) have "member c = Inl TypeError"
      by (auto simp: Object_prototype_def split: if_splits)
    with own Some show ?thesis
      by (simp add: callEventHandler_def)
  qed
qed

text \<open>
  C1: an event kind is the name of a GitHub event, as the runner sets it (\<^verbatim>\<open>push\<close>,
  \<^verbatim>\<open>issues\<close>, \<^verbatim>\<open>schedule\<close>, ...); none is the name of a method that an object literal
  inherits. For every such name other than \<^verbatim>\<open>pull_request\<close>, \<^verbatim>\<open>check_run\<close> and
  \<^verbatim>\<open>workflow_dispatch\<close> the lookup in the table finds no handler: the normalizer
  throws a \<^verbatim>\<open>TypeError\<close>, returns no context, and calls no API.
\<close>

theorem unsupported_event_throws:
  assumes "eventName (github_context env) \<notin> {''pull_request'', ''check_run'', ''workflow_dispatch''}"
      and "eventName (github_context env) \<notin>
             {''constructor'', ''hasOwnProperty'', ''isPrototypeOf'', ''propertyIsEnumerable'',
              ''toString'', ''toLocaleString'', ''valueOf'', ''__lookupGetter__'',
              ''__lookupSetter__''}"
  shows "getGitHubContext env = ([], Inl TypeError)"
proof -
  let ?name = "eventName (github_context env)"
  from assms have "callEventHandler ?name (github_context env) = Inl TypeError"
    by (intro callEventHandler_throws) auto
  with assms(1) show ?thesis
    by (simp add: getGitHubContext_def commitInfo_def)
qed

theorem unsupported_event_throws_witness:
  "getGitHubContext
     (no_inputs (example_context ''push'' ''refs/heads/main'' (JObj []) JUndefined)) =
   ([], Inl TypeError) \<and>
   getGitHubContext
     (no_inputs (example_context ''issues'' ''refs/heads/main''
        (JObj [(''action'', JStr ''opened''), (''issue'', JObj [(''number'', JNum (Finite 3))])])
        (JNum (Finite 3)))) =
   ([], Inl TypeError) \<and>
   getGitHubContext
     (with_inputs (example_context ''pull_request_target'' ''refs/heads/main'' payload_42
        (JNum (Finite 42)))) =
   ([], Inl TypeError)"
  using unsupported_event_throws
    [of "no_inputs (example_context ''push'' ''refs/heads/main'' (JObj []) JUndefined)"]
    unsupported_event_throws
    [of "no_inputs (example_context ''issues'' ''refs/heads/main''
          (JObj [(''action'', JStr ''opened''), (''issue'', JObj [(''number'', JNum (Finite 3))])])
          (JNum (Finite 3)))"]
    unsupported_event_throws
    [of "with_inputs (example_context ''pull_request_target'' ''refs/heads/main'' payload_42
          (JNum (Finite 42)))"]
  by (simp add: example_defs)

subsection \<open>The \<^verbatim>\<open>pull_request\<close> event\<close>

text \<open>
  C3: for a \<^verbatim>\<open>pull_request\<close> event whose payload has a \<^verbatim>\<open>pull_request\<close> object with a
  head, the normalizer returns the ambient owner and repo, \<^verbatim>\<open>prNumber\<close> the issue
  number of the event and \<^verbatim>\<open>sha\<close> the \<^verbatim>\<open>sha\<close> of that head; issue number 42 and head
  \<^verbatim>\<open>abc123\<close> give \<^verbatim>\<open>prNumber\<close> 42 and \<^verbatim>\<open>sha\<close> \<^verbatim>\<open>abc123\<close>.
\<close>

theorem pull_request_context:
  assumes "eventName (github_context env) = ''pull_request''"
      and "get (payload (github_context env)) ''pull_request'' = Inr pr"
      and "\<not> nullish pr"
      and "get pr ''head'' = Inr h"
      and "get h ''sha'' = Inr s"
  shows "getGitHubContext env =
           ([], Inr [(''owner'', JStr (repo_owner (github_context env))),
                     (''repo'', JStr (repo_name (github_context env))),
                     (''prNumber'', issue_number (github_context env)),
                     (''sha'', s)])"
  using assms
  by (simp add: getGitHubContext_def commitInfo_pull_request getPullRequestContext_def
      spread_repo_pr)

theorem pull_request_context_witness:
  "getGitHubContext
     (no_inputs (example_context ''pull_request'' ''refs/pull/42/merge'' payload_42
        (JNum (Finite 42)))) =
   ([], Inr [(''owner'', JStr ''pixee''), (''repo'', JStr ''pixee-actions''),
             (''prNumber'', JNum (Finite 42)), (''sha'', JStr ''abc123'')])"
  using pull_request_context
    [of "no_inputs (example_context ''pull_request'' ''refs/pull/42/merge'' payload_42
           (JNum (Finite 42)))"
        pull_request_42 "JObj [(''ref'', JStr ''fix''), (''sha'', JStr ''abc123'')]"
        "JStr ''abc123''"]
  by (simp add: example_defs payload_42_def pull_request_42_def get_def nullish_def)

text \<open>
  C4, as stated, fails for a \<^verbatim>\<open>pull_request\<close> object without a head: \<^verbatim>\<open>.head.sha\<close> is
  read past the one optional link, off \<^verbatim>\<open>undefined\<close>, and the normalizer throws a
  \<^verbatim>\<open>TypeError\<close>.
\<close>

theorem pull_request_without_head_throws:
  "getGitHubContext
     (no_inputs (example_context ''pull_request'' ''refs/pull/42/merge''
        (JObj [(''number'', JNum (Finite 42)),
               (''pull_request'', JObj [(''number'', JNum (Finite 42))])])
        (JNum (Finite 42)))) = ([], Inl TypeError)"
  by (simp add: getGitHubContext_def commitInfo_pull_request getPullRequestContext_def
      example_defs get_def nullish_def)

text \<open>
  C4, amended: for a \<^verbatim>\<open>pull_request\<close> event whose payload has no \<^verbatim>\<open>pull_request\<close>
  field (or has it \<^verbatim>\<open>null\<close>), the normalizer does not throw: it returns with \<^verbatim>\<open>sha\<close>
  \<^verbatim>\<open>undefined\<close>, neither validated nor defaulted.
\<close>

theorem pull_request_absent_sha_undefined:
  assumes "eventName (github_context env) = ''pull_request''"
      and "get (payload (github_context env)) ''pull_request'' = Inr pr"
      and "nullish pr"
  shows "getGitHubContext env =
           ([], Inr [(''owner'', JStr (repo_owner (github_context env))),
                     (''repo'', JStr (repo_name (github_context env))),
                     (''prNumber'', issue_number (github_context env)),
                     (''sha'', JUndefined)])"
  using assms
  by (simp add: getGitHubContext_def commitInfo_pull_request getPullRequestContext_def
      spread_repo_pr)

theorem pull_request_absent_sha_undefined_witness:
  "get (JObj [(''number'', JNum (Finite 42))]) ''pull_request'' = Inr JUndefined \<and>
   nullish JUndefined \<and>
   getGitHubContext
     (no_inputs (example_context ''pull_request'' ''refs/pull/42/merge''
        (JObj [(''number'', JNum (Finite 42))]) (JNum (Finite 42)))) =
   ([], Inr [(''owner'', JStr ''pixee''), (''repo'', JStr ''pixee-actions''),
             (''prNumber'', JNum (Finite 42)), (''sha'', JUndefined)])"
  using pull_request_absent_sha_undefined
    [of "no_inputs (example_context ''pull_request'' ''refs/pull/42/merge''
           (JObj [(''number'', JNum (Finite 42))]) (JNum (Finite 42)))" JUndefined]
  by (simp add: example_defs get_def nullish_def)

subsection \<open>The \<^verbatim>\<open>check_run\<close> event\<close>

text \<open>
  C10: for a \<^verbatim>\<open>check_run\<close> event whose payload has no \<^verbatim>\<open>check_run\<close> field, the handler
  reads \<^verbatim>\<open>pull_requests\<close> off \<^verbatim>\<open>undefined\<close>, and the normalizer throws a \<^verbatim>\<open>TypeError\<close>.
\<close>

theorem check_run_absent_throws:
  assumes "eventName (github_context env) = ''check_run''"
      and "payload (github_context env) = JObj p"
      and "map_of p ''check_run'' = None"
  shows "getGitHubContext env = ([], Inl TypeError)"
  using assms
  by (simp add: getGitHubContext_def commitInfo_check_run getCheckRunContext_def get_def)

theorem check_run_absent_throws_witness:
  "getGitHubContext
     (no_inputs (example_context ''check_run'' ''refs/heads/main''
        (JObj [(''action'', JStr ''completed'')]) JUndefined)) = ([], Inl TypeError)"
  using check_run_absent_throws
    [of "no_inputs (example_context ''check_run'' ''refs/heads/main''
           (JObj [(''action'', JStr ''completed'')]) JUndefined)"
        "[(''action'', JStr ''completed'')]"]
  by (simp add: example_defs)

text \<open>
  C5: for a \<^verbatim>\<open>check_run\<close> event, \<^verbatim>\<open>sha\<close> is the \<^verbatim>\<open>head_sha\<close> of the check run and
  \<^verbatim>\<open>prNumber\<close> the number of the first entry of its \<^verbatim>\<open>pull_requests\<close> array; when the
  array is empty or absent, \<^verbatim>\<open>prNumber\<close> is \<^verbatim>\<open>undefined\<close> and nothing is thrown. The
  pull requests 7 and 8 on \<^verbatim>\<open>def456\<close> give \<^verbatim>\<open>prNumber\<close> 7.
\<close>

theorem check_run_context:
  assumes "eventName (github_context env) = ''check_run''"
      and "get (payload (github_context env)) ''check_run'' = Inr (JObj cr)"
      and "map_of cr ''head_sha'' = Some s"
  shows "(\<forall>e es n. map_of cr ''pull_requests'' = Some (JArr (JObj e # es)) \<and>
                   map_of e ''number'' = Some n \<longrightarrow>
            getGitHubContext env =
              ([], Inr [(''owner'', JStr (repo_owner (github_context env))),
                        (''repo'', JStr (repo_name (github_context env))),
                        (''prNumber'', n), (''sha'', s)])) \<and>
         (map_of cr ''pull_requests'' = Some (JArr []) \<or> map_of cr ''pull_requests'' = None \<longrightarrow>
            getGitHubContext env =
              ([], Inr [(''owner'', JStr (repo_owner (github_context env))),
                        (''repo'', JStr (repo_name (github_context env))),
                        (''prNumber'', JUndefined), (''sha'', s)]))"
  using assms
  by (auto simp: getGitHubContext_def commitInfo_check_run getCheckRunContext_def
      spread_repo_pr get_def nullish_def index0_def)

theorem check_run_context_witness:
  "getGitHubContext
     (no_inputs (example_context ''check_run'' ''refs/heads/main'' check_run_7_8 JUndefined)) =
   ([], Inr [(''owner'', JStr ''pixee''), (''repo'', JStr ''pixee-actions''),
             (''prNumber'', JNum (Finite 7)), (''sha'', JStr ''def456'')]) \<and>
   getGitHubContext
     (no_inputs (example_context ''check_run'' ''refs/heads/main'' check_run_no_pr JUndefined)) =
   ([], Inr [(''owner'', JStr ''pixee''), (''repo'', JStr ''pixee-actions''),
             (''prNumber'', JUndefined), (''sha'', JStr ''def456'')])"
  using check_run_context
    [of "no_inputs (example_context ''check_run'' ''refs/heads/main'' check_run_7_8 JUndefined)"
        "[(''head_sha'', JStr ''def456''),
          (''pull_requests'',
           JArr [JObj [(''number'', JNum (Finite 7))], JObj [(''number'', JNum (Finite 8))]])]"
        "JStr ''def456''"]
    check_run_context
    [of "no_inputs (example_context ''check_run'' ''refs/heads/main'' check_run_no_pr JUndefined)"
        "[(''head_sha'', JStr ''def456''), (''pull_requests'', JArr [])]"
        "JStr ''def456''"]
  by (simp add: example_defs check_run_7_8_def check_run_no_pr_def get_def)

subsection \<open>The \<^verbatim>\<open>workflow_dispatch\<close> event\<close>

text \<open>
  C6: for a \<^verbatim>\<open>workflow_dispatch\<close> event whose branch name is neither \<^verbatim>\<open>main\<close> nor
  \<^verbatim>\<open>develop\<close>, the normalizer returns the ambient commit SHA as \<^verbatim>\<open>sha\<close>, with no
  \<^verbatim>\<open>prNumber\<close> property, and calls no API.
\<close>

theorem workflow_dispatch_other_branch:
  assumes "eventName (github_context env) = ''workflow_dispatch''"
      and "branchName (ref (github_context env)) \<notin> {''main'', ''develop''}"
  shows "getGitHubContext env =
           ([], Inr [(''owner'', JStr (repo_owner (github_context env))),
                     (''repo'', JStr (repo_name (github_context env))),
                     (''sha'', JStr (sha (github_context env)))])"
  using assms
  by (simp add: getGitHubContext_def commitInfo_workflow_dispatch getWorkflowDispatchContext_def
      allowedBranches_def spread_repo_sha)

theorem workflow_dispatch_other_branch_witness:
  "branchName ''refs/heads/feature-x'' = ''feature-x'' \<and>
   ''feature-x'' \<notin> {''main'', ''develop''} \<and>
   getGitHubContext
     (with_inputs (example_context ''workflow_dispatch'' ''refs/heads/feature-x'' (JObj [])
        JUndefined)) =
   ([], Inr [(''owner'', JStr ''pixee''), (''repo'', JStr ''pixee-actions''),
             (''sha'', JStr ''ffac537e6cbb'')])"
  using workflow_dispatch_other_branch
    [of "with_inputs (example_context ''workflow_dispatch'' ''refs/heads/feature-x'' (JObj [])
           JUndefined)"]
  by (simp add: example_defs branchName_def)

text \<open>
  C7: for a \<^verbatim>\<open>workflow_dispatch\<close> event whose branch name is \<^verbatim>\<open>main\<close> or \<^verbatim>\<open>develop\<close>,
  the normalizer calls \<^verbatim>\<open>pulls.get\<close> once, with \<^verbatim>\<open>pull_number\<close> the result of
  \<^verbatim>\<open>parseInt\<close> on the input \<^verbatim>\<open>pr-number\<close>, and returns as \<^verbatim>\<open>sha\<close> the
  \<^verbatim>\<open>data.head.sha\<close> of the response, with no \<^verbatim>\<open>prNumber\<close> property.
\<close>

theorem workflow_dispatch_allowed_branch:
  assumes "eventName (github_context env) = ''workflow_dispatch''"
      and "branchName (ref (github_context env)) \<in> {''main'', ''develop''}"
      and "getOctokit env (getInput env ''token'') = Inr pulls_get"
      and "request = \<lparr>token = getInput env ''token'',
                      owner = repo_owner (github_context env),
                      repo = repo_name (github_context env),
                      pull_number = parseInt env (getInput env ''pr-number'')\<rparr>"
      and "pulls_get request = Inr response"
      and "get response ''data'' = Inr d"
      and "get d ''head'' = Inr h"
      and "get h ''sha'' = Inr s"
  shows "getGitHubContext env =
           ([request], Inr [(''owner'', JStr (repo_owner (github_context env))),
                            (''repo'', JStr (repo_name (github_context env))),
                            (''sha'', s)])"
  using assms
  by (simp add: getGitHubContext_def commitInfo_workflow_dispatch getWorkflowDispatchContext_def
      allowedBranches_def pullsGetRequest_def spread_repo_sha)

theorem workflow_dispatch_allowed_branch_witness:
  "branchName ''refs/heads/main'' \<in> {''main'', ''develop''} \<and>
   parseInt_model ''17'' = Finite 17 \<and>
   getGitHubContext
     (with_inputs (example_context ''workflow_dispatch'' ''refs/heads/main'' (JObj [])
        JUndefined)) =
   ([\<lparr>token = ''installation-token'', owner = ''pixee'', repo = ''pixee-actions'',
      pull_number = Finite 17\<rparr>],
    Inr [(''owner'', JStr ''pixee''), (''repo'', JStr ''pixee-actions''),
         (''sha'', JStr ''9fceb02d0ae5'')])"
  using workflow_dispatch_allowed_branch
    [of "with_inputs (example_context ''workflow_dispatch'' ''refs/heads/main'' (JObj [])
           JUndefined)"
        "\<lambda>rq. Inr (JObj [(''data'', JObj [(''head'', JObj [(''sha'', JStr ''9fceb02d0ae5'')])])])"
        "\<lparr>token = ''installation-token'', owner = ''pixee'', repo = ''pixee-actions'',
          pull_number = Finite 17\<rparr>"
        "JObj [(''data'', JObj [(''head'', JObj [(''sha'', JStr ''9fceb02d0ae5'')])])]"
        "JObj [(''head'', JObj [(''sha'', JStr ''9fceb02d0ae5'')])]"
        "JObj [(''sha'', JStr ''9fceb02d0ae5'')]"
        "JStr ''9fceb02d0ae5''"]
  by (simp add: example_defs branchName_def parseInt_17 get_def)

text \<open>
  On a ref that starts with \<^verbatim>\<open>refs/heads/\<close> the branch name is the rest of the ref, as
  the specification's prefix stripping gives it.
\<close>

lemma branchName_heads: "branchName (''refs/heads/'' @ b) = b"
  by (simp add: branchName_def)

lemma branchName_spec:
  "branchName (''refs/heads/'' @ b) = spec_stripPrefix ''refs/heads/'' (''refs/heads/'' @ b)"
  by (simp add: branchName_def spec_stripPrefix_def)

text \<open>
  C8 asks that the branch name be the ref with the prefix \<^verbatim>\<open>refs/heads/\<close> stripped, a
  ref without that prefix being left as it is. The code drops eleven code units of any
  ref: a manual dispatch on the tag \<^verbatim>\<open>xmain\<close> has the ref \<^verbatim>\<open>refs/tags/xmain\<close>, the branch
  name comes out as \<^verbatim>\<open>main\<close>, and the normalizer takes the API path of the allow-listed
  branches instead of returning the ambient SHA.
\<close>

theorem tag_taken_for_branch:
  "branchName ''refs/tags/xmain'' = ''main'' \<and>
   spec_stripPrefix ''refs/heads/'' ''refs/tags/xmain'' = ''refs/tags/xmain'' \<and>
   getGitHubContext
     (with_inputs (example_context ''workflow_dispatch'' ''refs/tags/xmain'' (JObj [])
        JUndefined)) =
   ([\<lparr>token = ''installation-token'', owner = ''pixee'', repo = ''pixee-actions'',
      pull_number = Finite 17\<rparr>],
    Inr [(''owner'', JStr ''pixee''), (''repo'', JStr ''pixee-actions''),
         (''sha'', JStr ''9fceb02d0ae5'')])"
  by (simp add: getGitHubContext_def commitInfo_workflow_dispatch getWorkflowDispatchContext_def
      allowedBranches_def pullsGetRequest_def spread_repo_sha example_defs branchName_def
      spec_stripPrefix_def parseInt_17 get_def)

subsection \<open>All supported events\<close>

text \<open>
  C2, as stated, fails: a \<^verbatim>\<open>pull_request\<close> event whose payload has no \<^verbatim>\<open>pull_request\<close>
  field is answered with \<^verbatim>\<open>sha\<close> \<^verbatim>\<open>undefined\<close>, which is no non-empty string.
\<close>

theorem absent_pull_request_breaks_invariant:
  "getGitHubContext
     (no_inputs (example_context ''pull_request'' ''refs/pull/42/merge''
        (JObj [(''number'', JNum (Finite 42))]) (JNum (Finite 42)))) =
   ([], Inr [(''owner'', JStr ''pixee''), (''repo'', JStr ''pixee-actions''),
             (''prNumber'', JNum (Finite 42)), (''sha'', JUndefined)]) \<and>
   \<not> GitHubContext_invariant
        [(''owner'', JStr ''pixee''), (''repo'', JStr ''pixee-actions''),
         (''prNumber'', JNum (Finite 42)), (''sha'', JUndefined)]"
  by (simp add: getGitHubContext_def commitInfo_pull_request getPullRequestContext_def
      spread_repo_pr example_defs get_def nullish_def GitHubContext_invariant_def
      nonempty_string_def)

lemma invariant_pr:
  "GitHubContext_invariant [(''owner'', a), (''repo'', b), (''prNumber'', n), (''sha'', s)] =
     (nonempty_string s \<and> (n = JUndefined \<or> positive_integer n))"
  by (simp add: GitHubContext_invariant_def)

lemma invariant_sha:
  "GitHubContext_invariant [(''owner'', a), (''repo'', b), (''sha'', s)] = nonempty_string s"
  by (simp add: GitHubContext_invariant_def)

text \<open>
  C2, amended: every value returned for a supported event kind has the property
  \<^verbatim>\<open>sha\<close>, and it satisfies the invariant (\<^verbatim>\<open>sha\<close> a non-empty string, \<^verbatim>\<open>prNumber\<close>, when
  present, a positive integer) exactly when the values it is copied from do: the
  \<^verbatim>\<open>head.sha\<close> of the payload's pull request and the issue number, the \<^verbatim>\<open>head_sha\<close> of
  the check run and the number of its first pull request, the ambient SHA, or the
  \<^verbatim>\<open>data.head.sha\<close> of the API response. Nothing is validated or defaulted.
\<close>

theorem invariant_from_sources:
  assumes "eventName (github_context env) \<in> {''pull_request'', ''check_run'', ''workflow_dispatch''}"
      and "getGitHubContext env = (calls, Inr g)"
  shows "''sha'' \<in> fst ` set g \<and> (GitHubContext_invariant g \<longleftrightarrow> sources_valid env)"
proof -
  let ?c = "github_context env"
  from assms(1) consider
      (pr) "eventName ?c = ''pull_request''"
    | (cr) "eventName ?c = ''check_run''"
    | (wd) "eventName ?c = ''workflow_dispatch''"
    by auto
  then show ?thesis
  proof cases
    case pr
    with assms(2) obtain ci where ci: "getPullRequestContext ?c = Inr ci"
      and g: "g = spread (spread [] (getRepositoryInfo env)) ci"
      by (auto simp: getGitHubContext_def commitInfo_pull_request split: sum.splits)
    from getPullRequestContext_returns [OF ci] g pr show ?thesis
      by (simp add: spread_repo_pr invariant_pr sources_valid_def Let_def)
  next
    case cr
    with assms(2) obtain ci where ci: "getCheckRunContext ?c = Inr ci"
      and g: "g = spread (spread [] (getRepositoryInfo env)) ci"
      by (auto simp: getGitHubContext_def commitInfo_check_run split: sum.splits)
    from getCheckRunContext_returns [OF ci] g cr show ?thesis
      by (simp add: spread_repo_pr invariant_pr sources_valid_def Let_def)
  next
    case wd
    with assms(2) obtain ci where ci: "getWorkflowDispatchContext env ?c = (calls, Inr ci)"
      and g: "g = spread (spread [] (getRepositoryInfo env)) ci"
      by (auto simp: getGitHubContext_def commitInfo_workflow_dispatch split: sum.splits prod.splits)
    show ?thesis
    proof (cases "branchName (ref ?c) \<in> set allowedBranches")
      case False
      with ci have "ci = JObj [(''sha'', JStr (sha ?c))]"
        by (simp add: getWorkflowDispatchContext_def)
      with g wd False show ?thesis
        by (simp add: spread_repo_sha invariant_sha sources_valid_def nonempty_string_def Let_def)
    next
      case True
      with ci obtain pulls_get response d h s
        where "getOctokit env (getInput env ''token'') = Inr pulls_get"
          and "pulls_get (pullsGetRequest env) = Inr response"
          and "get response ''data'' = Inr d" and "get d ''head'' = Inr h"
          and "get h ''sha'' = Inr s" and "ci = JObj [(''sha'', s)]"
        by (auto simp: getWorkflowDispatchContext_def split: sum.splits)
      with g wd True show ?thesis
        by (simp add: spread_repo_sha invariant_sha sources_valid_def Let_def)
    qed
  qed
qed

theorem invariant_from_sources_witness:
  "getGitHubContext
     (no_inputs (example_context ''pull_request'' ''refs/pull/42/merge'' payload_42
        (JNum (Finite 42)))) =
   ([], Inr [(''owner'', JStr ''pixee''), (''repo'', JStr ''pixee-actions''),
             (''prNumber'', JNum (Finite 42)), (''sha'', JStr ''abc123'')]) \<and>
   sources_valid
     (no_inputs (example_context ''pull_request'' ''refs/pull/42/merge'' payload_42
        (JNum (Finite 42)))) \<and>
   GitHubContext_invariant
     [(''owner'', JStr ''pixee''), (''repo'', JStr ''pixee-actions''),
      (''prNumber'', JNum (Finite 42)), (''sha'', JStr ''abc123'')]"
proof -
  let ?env = "no_inputs (example_context ''pull_request'' ''refs/pull/42/merge'' payload_42
                (JNum (Finite 42)))"
  let ?g = "[(''owner'', JStr ''pixee''), (''repo'', JStr ''pixee-actions''),
             (''prNumber'', JNum (Finite 42)), (''sha'', JStr ''abc123'')]"
  have ev: "eventName (github_context ?env) \<in> {''pull_request'', ''check_run'', ''workflow_dispatch''}"
    by (simp add: example_defs)
  have run: "getGitHubContext ?env = ([], Inr ?g)"
    by (simp add: getGitHubContext_def commitInfo_pull_request getPullRequestContext_def
        spread_repo_pr example_defs payload_42_def pull_request_42_def get_def nullish_def)
  have src: "sources_valid ?env"
    by (simp add: sources_valid_def example_defs payload_42_def pull_request_42_def get_def
        nonempty_string_def positive_integer_def)
  from invariant_from_sources [OF ev run] src have "GitHubContext_invariant ?g"
    by blast
  with run src show ?thesis
    by blast
qed

text \<open>
  C9: for every supported event, \<^verbatim>\<open>owner\<close> and \<^verbatim>\<open>repo\<close> of the returned context are
  the ambient repository information: the properties of the commit information are
  written after them, but they are among \<^verbatim>\<open>prNumber\<close> and \<^verbatim>\<open>sha\<close>, so the two sets of
  names are disjoint and the merge is a union without conflict.
\<close>

theorem repository_fields_kept:
  assumes "eventName (github_context env) \<in> {''pull_request'', ''check_run'', ''workflow_dispatch''}"
      and "getGitHubContext env = (calls, Inr g)"
  shows "map_of g ''owner'' = Some (JStr (repo_owner (github_context env))) \<and>
         map_of g ''repo'' = Some (JStr (repo_name (github_context env))) \<and>
         (\<exists>ci. commitInfo env = (calls, Inr ci) \<and>
               fst ` set (own_enumerable ci) \<subseteq> {''prNumber'', ''sha''} \<and>
               fst ` set (own_enumerable ci) \<inter>
                 fst ` set (own_enumerable (getRepositoryInfo env)) = {} \<and>
               g = own_enumerable (getRepositoryInfo env) @ own_enumerable ci)"
proof -
  let ?c = "github_context env"
  from assms(2) obtain ci where ci: "commitInfo env = (calls, Inr ci)"
    and g: "g = spread (spread [] (getRepositoryInfo env)) ci"
    by (auto simp: getGitHubContext_def split: sum.splits prod.splits)
  have "(\<exists>n s. ci = JObj [(''prNumber'', n), (''sha'', s)]) \<or> (\<exists>s. ci = JObj [(''sha'', s)])"
  proof -
    from assms(1) consider
        (pr) "eventName ?c = ''pull_request''"
      | (cr) "eventName ?c = ''check_run''"
      | (wd) "eventName ?c = ''workflow_dispatch''"
      by auto
    then show ?thesis
    proof cases
      case pr
      with ci have "getPullRequestContext ?c = Inr ci"
        by (simp add: commitInfo_pull_request)
      from getPullRequestContext_returns [OF this] show ?thesis by blast
    next
      case cr
      with ci have "getCheckRunContext ?c = Inr ci"
        by (simp add: commitInfo_check_run)
      from getCheckRunContext_returns [OF this] show ?thesis by blast
    next
      case wd
      with ci have "getWorkflowDispatchContext env ?c = (calls, Inr ci)"
        by (simp add: commitInfo_workflow_dispatch)
      from getWorkflowDispatchContext_returns [OF this] show ?thesis by blast
    qed
  qed
  then show ?thesis
  proof
    assume "\<exists>n s. ci = JObj [(''prNumber'', n), (''sha'', s)]"
    then obtain n s where "ci = JObj [(''prNumber'', n), (''sha'', s)]" by blast
    with g have "g = own_enumerable (getRepositoryInfo env) @ own_enumerable ci"
      by (simp add: spread_repo_pr) (simp add: own_enumerable_def getRepositoryInfo_def)
    with ci \<open>ci = JObj [(''prNumber'', n), (''sha'', s)]\<close> show ?thesis
      by (simp add: own_enumerable_def getRepositoryInfo_def)
  next
    assume "\<exists>s. ci = JObj [(''sha'', s)]"
    then obtain s where "ci = JObj [(''sha'', s)]" by blast
    with g have "g = own_enumerable (getRepositoryInfo env) @ own_enumerable ci"
      by (simp add: spread_repo_sha) (simp add: own_enumerable_def getRepositoryInfo_def)
    with ci \<open>ci = JObj [(''sha'', s)]\<close> show ?thesis
      by (simp add: own_enumerable_def getRepositoryInfo_def)
  qed
qed

theorem repository_fields_kept_witness:
  "getGitHubContext
     (no_inputs (example_context ''check_run'' ''refs/heads/main'' check_run_7_8 JUndefined)) =
   ([], Inr [(''owner'', JStr ''pixee''), (''repo'', JStr ''pixee-actions''),
             (''prNumber'', JNum (Finite 7)), (''sha'', JStr ''def456'')]) \<and>
   map_of [(''owner'', JStr ''pixee''), (''repo'', JStr ''pixee-actions''),
           (''prNumber'', JNum (Finite 7)), (''sha'', JStr ''def456'')] ''owner'' =
     Some (JStr ''pixee'') \<and>
   map_of [(''owner'', JStr ''pixee''), (''repo'', JStr ''pixee-actions''),
           (''prNumber'', JNum (Finite 7)), (''sha'', JStr ''def456'')] ''repo'' =
     Some (JStr ''pixee-actions'')"
proof -
  let ?env = "no_inputs (example_context ''check_run'' ''refs/heads/main'' check_run_7_8 JUndefined)"
  let ?g = "[(''owner'', JStr ''pixee''), (''repo'', JStr ''pixee-actions''),
             (''prNumber'', JNum (Finite 7)), (''sha'', JStr ''def456'')]"
  have ev: "eventName (github_context ?env) \<in> {''pull_request'', ''check_run'', ''workflow_dispatch''}"
    by (simp add: example_defs)
  have run: "getGitHubContext ?env = ([], Inr ?g)"
    by (simp add: getGitHubContext_def commitInfo_check_run getCheckRunContext_def
        spread_repo_pr example_defs check_run_7_8_def get_def nullish_def index0_def)
  from repository_fields_kept [OF ev run]
  have "map_of ?g ''owner'' = Some (JStr (repo_owner (github_context ?env)))"
    and "map_of ?g ''repo'' = Some (JStr (repo_name (github_context ?env)))"
    by blast+
  with run show ?thesis
    by (simp add: example_defs)
qed

end
